theory Spec2Isabelle
  imports Complex_Main "HOL-Library.AList" "HOL-Library.Sublist"
begin

section \<open>Python values, exceptions and strings\<close>

text \<open>
  The render scripts are Python. An exception that leaves a function is the left
  summand of its result; \<open>ebind\<close> sequences two computations and stops at the first
  exception, as Python's control flow does.
\<close>

datatype py_error =
    KeyError string
  | ValueError
  | IndexError
  | TypeError
  | AttributeError
  | StopIteration
  | UnboundLocalError
  | CalledProcessError
  | OSError
  | Exception string

definition ebind :: "py_error + 'a \<Rightarrow> ('a \<Rightarrow> py_error + 'b) \<Rightarrow> py_error + 'b" where
  "ebind m f = (case m of Inl e \<Rightarrow> Inl e | Inr x \<Rightarrow> f x)"

text \<open>
  The values a parameter dictionary (the flags of render.py, a job message) holds.
  A dictionary is an association list: Python dictionaries keep insertion order, and
  assigning to an existing key keeps its position (\<open>AList.update\<close>).
\<close>

datatype pyval =
    PStr string
  | PInt int
  | PBool bool
  | PNone
  | PList "pyval list"

type_synonym pydict = "(string \<times> pyval) list"

definition dict_get :: "pydict \<Rightarrow> string \<Rightarrow> py_error + pyval" where
  "dict_get d k = (case map_of d k of None \<Rightarrow> Inl (KeyError k) | Some v \<Rightarrow> Inr v)"

definition dict_update :: "pydict \<Rightarrow> pydict \<Rightarrow> pydict" where
  "dict_update d e = foldl (\<lambda>acc (k, v). AList.update k v acc) d e"

fun truthy :: "pyval \<Rightarrow> bool" where
  "truthy (PStr s) = (s \<noteq> [])"
| "truthy (PInt i) = (i \<noteq> 0)"
| "truthy (PBool b) = b"
| "truthy PNone = False"
| "truthy (PList xs) = (xs \<noteq> [])"

subsection \<open>\<open>str(int)\<close>, \<open>int(str)\<close>, \<open>str.rjust\<close>\<close>

definition is_digit :: "char \<Rightarrow> bool" where
  "is_digit c = (48 \<le> (of_char c :: nat) \<and> (of_char c :: nat) \<le> 57)"

definition digit_val :: "char \<Rightarrow> nat" where
  "digit_val c = of_char c - 48"

definition digit_char :: "nat \<Rightarrow> char" where
  "digit_char d = char_of (48 + d)"

fun str_nat :: "nat \<Rightarrow> string" where
  "str_nat n = (if n < 10 then [digit_char n] else str_nat (n div 10) @ [digit_char (n mod 10)])"

declare str_nat.simps [simp del]

definition str_int :: "int \<Rightarrow> string" where
  "str_int i = (if i < 0 then CHR ''-'' # str_nat (nat (- i)) else str_nat (nat i))"

definition rjust :: "nat \<Rightarrow> char \<Rightarrow> string \<Rightarrow> string" where
  "rjust w c s = replicate (w - length s) c @ s"

text \<open>
  \<open>int(s)\<close> on a string, over ASCII: surrounding whitespace is stripped, one sign is
  allowed, and the digits may be separated by single underscores; anything else raises
  ValueError.
\<close>

definition py_isspace :: "char \<Rightarrow> bool" where
  "py_isspace c = ((of_char c :: nat) \<in> {9, 10, 11, 12, 13, 28, 29, 30, 31, 32})"

definition strip :: "string \<Rightarrow> string" where
  "strip s = rev (dropWhile py_isspace (rev (dropWhile py_isspace s)))"

fun parse_digits :: "nat \<Rightarrow> string \<Rightarrow> nat option" where
  "parse_digits acc [] = Some acc"
| "parse_digits acc [c] = (if is_digit c then Some (10 * acc + digit_val c) else None)"
| "parse_digits acc (c # d # r) =
     (if is_digit c then parse_digits (10 * acc + digit_val c) (d # r)
      else if c = CHR ''_'' \<and> is_digit d then parse_digits (10 * acc + digit_val d) r
      else None)"

definition parse_nat :: "string \<Rightarrow> nat option" where
  "parse_nat s = (case s of [] \<Rightarrow> None
                  | c # r \<Rightarrow> if is_digit c then parse_digits (digit_val c) r else None)"

definition int_of_str :: "string \<Rightarrow> py_error + int" where
  "int_of_str s =
     (case strip s of
        [] \<Rightarrow> Inl ValueError
      | c # r \<Rightarrow>
          if c = CHR ''-'' then
            (case parse_nat r of None \<Rightarrow> Inl ValueError | Some n \<Rightarrow> Inr (- int n))
          else if c = CHR ''+'' then
            (case parse_nat r of None \<Rightarrow> Inl ValueError | Some n \<Rightarrow> Inr (int n))
          else
            (case parse_nat (c # r) of None \<Rightarrow> Inl ValueError | Some n \<Rightarrow> Inr (int n)))"

text \<open>\<open>int(v)\<close> on a dictionary value.\<close>

fun py_int :: "pyval \<Rightarrow> py_error + int" where
  "py_int (PStr s) = int_of_str s"
| "py_int (PInt i) = Inr i"
| "py_int (PBool b) = Inr (if b then 1 else 0)"
| "py_int PNone = Inl TypeError"
| "py_int (PList xs) = Inl TypeError"

section \<open>Frame names and frame ranges (network.py)\<close>

text \<open>\<open>get_frame_name(frame)\<close> is \<open>str(frame).rjust(6, "0")\<close>.\<close>

definition get_frame_name :: "int \<Rightarrow> string" where
  "get_frame_name frame = rjust 6 (CHR ''0'') (str_int frame)"

text \<open>
  \<open>get_frame_range(first, last)\<close> is
  \<open>[get_frame_name(frame) for frame in range(int(first), int(last) + 1)]\<close>.
\<close>

definition get_frame_range :: "pyval \<Rightarrow> pyval \<Rightarrow> py_error + string list" where
  "get_frame_range first_name last_name =
     ebind (py_int first_name) (\<lambda>f.
     ebind (py_int last_name) (\<lambda>l.
       Inr (map get_frame_name [f..l])))"

text \<open>A frame identifier of the data model: six decimal digits.\<close>

definition is_frame_id :: "string \<Rightarrow> bool" where
  "is_frame_id s = (length s = 6 \<and> list_all is_digit s)"

text \<open>The number a string of digits denotes, read from the left with a carry.\<close>

definition dval :: "nat \<Rightarrow> string \<Rightarrow> nat" where
  "dval acc s = foldl (\<lambda>a c. 10 * a + digit_val c) acc s"

section \<open>Strings and paths\<close>

text \<open>\<open>str(v)\<close> as an f-string formats it. Inside a list, \<open>repr\<close> puts a string between
  quotes (escapes are left out).\<close>

fun py_str :: "pyval \<Rightarrow> string" and py_repr :: "pyval \<Rightarrow> string" and
    py_repr_items :: "pyval list \<Rightarrow> string" where
  "py_str (PStr s) = s"
| "py_str (PInt i) = str_int i"
| "py_str (PBool b) = (if b then ''True'' else ''False'')"
| "py_str PNone = ''None''"
| "py_str (PList xs) = ''['' @ py_repr_items xs @ '']''"
| "py_repr (PStr s) = [CHR 39] @ s @ [CHR 39]"
| "py_repr (PInt i) = str_int i"
| "py_repr (PBool b) = (if b then ''True'' else ''False'')"
| "py_repr PNone = ''None''"
| "py_repr (PList xs) = ''['' @ py_repr_items xs @ '']''"
| "py_repr_items [] = []"
| "py_repr_items [x] = py_repr x"
| "py_repr_items (x # y # ys) = py_repr x @ '', '' @ py_repr_items (y # ys)"

text \<open>A string method called on a value that is not a string raises AttributeError.\<close>

fun as_str :: "pyval \<Rightarrow> py_error + string" where
  "as_str (PStr s) = Inr s"
| "as_str v = Inl AttributeError"

definition startswith :: "string \<Rightarrow> string \<Rightarrow> bool" where
  "startswith s p = prefix p s"

definition endswith :: "string \<Rightarrow> string \<Rightarrow> bool" where
  "endswith s p = suffix p s"

text \<open>\<open>sub in s\<close> for strings.\<close>

definition contains :: "string \<Rightarrow> string \<Rightarrow> bool" where
  "contains sub s = sublist sub s"

text \<open>\<open>s.split(sep)\<close> for a separator that is not empty: the pieces between the
  occurrences of \<open>sep\<close>, found from the left without overlap.\<close>

function split_from :: "string \<Rightarrow> string \<Rightarrow> string \<Rightarrow> string list" where
  "split_from sep cur [] = [rev cur]"
| "split_from sep cur (c # cs) =
     (if sep \<noteq> [] \<and> prefix sep (c # cs)
      then rev cur # split_from sep [] (drop (length sep) (c # cs))
      else split_from sep (c # cur) cs)"
  by pat_completeness auto
termination
  by (relation "measure (\<lambda>(sep, cur, rest). length rest)") (auto simp: neq_Nil_conv)

definition py_split :: "string \<Rightarrow> string \<Rightarrow> string list" where
  "py_split s sep = split_from sep [] s"

text \<open>\<open>s.split(sep, 1)\<close>: at most one cut, at the first occurrence.\<close>

fun split_first :: "string \<Rightarrow> string \<Rightarrow> string \<Rightarrow> string list" where
  "split_first sep cur [] = [rev cur]"
| "split_first sep cur (c # cs) =
     (if sep \<noteq> [] \<and> prefix sep (c # cs)
      then [rev cur, drop (length sep) (c # cs)]
      else split_first sep (c # cur) cs)"

definition py_split1 :: "string \<Rightarrow> string \<Rightarrow> string list" where
  "py_split1 s sep = split_first sep [] s"

text \<open>\<open>posixpath.join(a, b)\<close>, \<open>posixpath.basename\<close> and \<open>posixpath.splitext\<close>.\<close>

definition path_join :: "string \<Rightarrow> string \<Rightarrow> string" where
  "path_join a b =
     (if startswith b ''/'' then b
      else if a = [] \<or> endswith a ''/'' then a @ b
      else a @ ''/'' @ b)"

definition basename :: "string \<Rightarrow> string" where
  "basename p = rev (takeWhile (\<lambda>c. c \<noteq> CHR ''/'') (rev p))"

definition splitext :: "string \<Rightarrow> string \<times> string" where
  "splitext p =
     (let b = basename p;
          d = take (length p - length b) p;
          e = rev (takeWhile (\<lambda>c. c \<noteq> CHR ''.'') (rev b));
          stem = take (length b - length e - 1) b
      in if CHR ''.'' \<in> set b \<and> (\<exists>c \<in> set stem. c \<noteq> CHR ''.'')
         then (d @ stem, CHR ''.'' # e)
         else (p, []))"

section \<open>Constants (config.py, system_util.py)\<close>

definition WIDTHS :: "int list" where
  "WIDTHS = [2048, 1024, 512, 256, 200, 128, 100, 80, 60, 50]"



definition NO_WORKER_TIMEOUT :: real where
  "NO_WORKER_TIMEOUT = 180"

definition DOCKER_INPUT_ROOT :: string where
  "DOCKER_INPUT_ROOT = ''/app/facebook360_dep/project''"

definition DOCKER_OUTPUT_ROOT :: string where
  "DOCKER_OUTPUT_ROOT = ''/app/facebook360_dep/project/video''"

definition type_to_levels_type :: pydict where
  "type_to_levels_type =
     [(''background_disp'', PStr ''background_disp_levels''),
      (''background_color'', PStr ''background_color_levels''),
      (''color'', PStr ''color_levels''),
      (''disparity'', PStr ''disparity_levels''),
      (''disparity_time_filtered'', PStr ''disparity_time_filtered_levels''),
      (''foreground_masks'', PStr ''foreground_masks_levels'')]"

definition type_to_upsample_type :: pydict where
  "type_to_upsample_type =
     [(''disparity'', PStr ''disparity_upsample''),
      (''background_disp'', PStr ''background_disp_upsample'')]"

definition image_type_paths :: pydict where
  "image_type_paths =
     [(''background_color'', PStr ''background/color''),
      (''background_color_levels'', PStr ''background/color_levels''),
      (''background_disp'', PStr ''background/disparity''),
      (''background_disp_levels'', PStr ''background/disparity_levels''),
      (''background_disp_upsample'', PStr ''background/disparity_upsample''),
      (''bin'', PStr ''bin''),
      (''color'', PStr ''video/color''),
      (''color_levels'', PStr ''video/color_levels''),
      (''confidence'', PStr ''confidence''),
      (''cost'', PStr ''cost''),
      (''disparity'', PStr ''disparity''),
      (''disparity_upsample'', PStr ''disparity_upsample''),
      (''disparity_levels'', PStr ''disparity_levels''),
      (''disparity_time_filtered'', PStr ''disparity_time_filtered''),
      (''disparity_time_filtered_levels'', PStr ''disparity_time_filtered_levels''),
      (''exports'', PStr ''exports''),
      (''exports_cubecolor'', PStr ''exports/cubecolor''),
      (''exports_cubedisp'', PStr ''exports/cubedisp''),
      (''exports_eqrcolor'', PStr ''exports/eqrcolor''),
      (''exports_eqrdisp'', PStr ''exports/eqrdisp''),
      (''exports_lr180'', PStr ''exports/lr180''),
      (''exports_tb3dof'', PStr ''exports/tb3dof''),
      (''exports_tbstereo'', PStr ''exports/tbstereo''),
      (''foreground_masks'', PStr ''video/foreground_masks''),
      (''foreground_masks_levels'', PStr ''video/foreground_masks_levels''),
      (''fused'', PStr ''fused'')]"

text \<open>A dictionary lookup whose key is itself a value: a list is unhashable (TypeError),
  any other value that is not a key raises KeyError.\<close>

fun dict_get_val :: "pydict \<Rightarrow> pyval \<Rightarrow> py_error + pyval" where
  "dict_get_val d (PStr k) = dict_get d k"
| "dict_get_val d (PList xs) = Inl TypeError"
| "dict_get_val d v = Inl (KeyError (py_str v))"

section \<open>Addresses and image-type paths (network.py)\<close>

record address =
  address :: string
  protocol :: "string option"
  ip_path :: string
  ip :: "string option"
  path :: string

text \<open>\<open>Address.__init__\<close>: unpacking a split into two names raises ValueError unless the
  split has exactly two pieces.\<close>

definition Address :: "string \<Rightarrow> py_error + address" where
  "Address a =
     (if contains ''://'' a then
        (case py_split a ''://'' of
           [pr, ipp] \<Rightarrow>
             (case py_split1 ipp ''/'' of
                [i, p] \<Rightarrow> Inr \<lparr>address = a, protocol = Some pr, ip_path = ipp,
                               ip = Some i, path = p\<rparr>
              | _ \<Rightarrow> Inl ValueError)
         | _ \<Rightarrow> Inl ValueError)
      else Inr \<lparr>address = a, protocol = None, ip_path = a, ip = None, path = a\<rparr>)"

definition input_types :: "string list" where
  "input_types =
     [''background_color'', ''background_color_levels'', ''background_disp'',
      ''background_disp_levels'', ''background_disp_upsample'', ''color'', ''color_levels'',
      ''foreground_masks'', ''foreground_masks_levels'']"

definition output_types :: "string list" where
  "output_types =
     [''bin'', ''confidence'', ''cost'', ''disparity'', ''disparity_upsample'',
      ''disparity_levels'', ''disparity_time_filtered'', ''disparity_time_filtered_levels'',
      ''fused'', ''mismatches'', ''exports'', ''exports_cubecolor'', ''exports_cubedisp'',
      ''exports_eqrcolor'', ''exports_eqrdisp'', ''exports_lr180'', ''exports_tb3dof'',
      ''exports_tbstereo'']"

text \<open>\<open>_get_image_root_type\<close>: the output entries are written over the input ones.\<close>

fun get_image_root_type :: "pyval \<Rightarrow> py_error + string" where
  "get_image_root_type (PStr t) =
     (if t \<in> set output_types then Inr ''output''
      else if t \<in> set input_types then Inr ''input''
      else Inl (KeyError t))"
| "get_image_root_type (PList xs) = Inl TypeError"
| "get_image_root_type v = Inl (KeyError (py_str v))"

text \<open>\<open>os.path.join\<close> on a value that is not a string raises TypeError.\<close>

fun as_path :: "pyval \<Rightarrow> py_error + string" where
  "as_path (PStr s) = Inr s"
| "as_path v = Inl TypeError"

definition remote_image_type_path :: "pydict \<Rightarrow> pyval \<Rightarrow> pyval \<Rightarrow> py_error + string" where
  "remote_image_type_path msg image_type level =
     ebind (if level \<noteq> PNone then dict_get_val type_to_levels_type image_type
            else Inr image_type) (\<lambda>image_type.
     ebind (get_image_root_type image_type) (\<lambda>image_root_type.
     ebind (if image_root_type = ''input'' then dict_get msg ''input_root''
            else dict_get msg ''output_root'') (\<lambda>image_root.
     ebind (dict_get_val image_type_paths image_type) (\<lambda>rel.
     ebind (as_path image_root) (\<lambda>rootdir.
     ebind (as_path rel) (\<lambda>rel.
       let image_type_dir = path_join rootdir rel
       in if level = PNone then Inr image_type_dir
          else Inr (path_join image_type_dir (''level_'' @ py_str level))))))))"

definition local_image_type_path :: "pydict \<Rightarrow> pyval \<Rightarrow> pyval \<Rightarrow> py_error + string" where
  "local_image_type_path msg image_type level =
     ebind (if level \<noteq> PNone then dict_get_val type_to_levels_type image_type
            else Inr image_type) (\<lambda>image_type.
     ebind (get_image_root_type image_type) (\<lambda>image_root_type.
     ebind (dict_get_val image_type_paths image_type) (\<lambda>rel.
     ebind (as_path rel) (\<lambda>rel.
       let image_root = (if image_root_type = ''input'' then DOCKER_INPUT_ROOT
                         else DOCKER_OUTPUT_ROOT);
           image_type_dir = path_join image_root rel
       in if level = PNone then Inr image_type_dir
          else Inr (path_join image_type_dir (''level_'' @ py_str level))))))"


section \<open>What the scripts read from the operating system\<close>

text \<open>
  The cache checker only reads: it walks a directory, lists it, or runs \<open>aws s3 ls\<close>
  through \<open>run_command\<close>. What these calls answer is a snapshot of the machine and of the
  object store, a record of functions. \<open>os_walk top\<close> is the sequence of
  \<open>(rootdir, dirs, files)\<close> triples that \<open>os.walk(top)\<close> yields, empty when \<open>top\<close> is not a
  directory (os.walk swallows the error); \<open>run_command\<close> answers the standard output of
  a shell command or raises; \<open>relpath\<close> is \<open>os.path.relpath\<close>, which depends on the
  working directory.
\<close>

record os_env =
  run_command :: "string \<Rightarrow> py_error + string"
  os_walk :: "string \<Rightarrow> (string \<times> string list \<times> string list) list"
  os_listdir :: "string \<Rightarrow> py_error + string list"
  relpath :: "string \<Rightarrow> string \<Rightarrow> py_error + string"
  path_exists :: "string \<Rightarrow> bool"

text \<open>A comprehension whose body may raise stops at the first exception.\<close>

fun emap :: "('a \<Rightarrow> py_error + 'b) \<Rightarrow> 'a list \<Rightarrow> py_error + 'b list" where
  "emap f [] = Inr []"
| "emap f (x # xs) = ebind (f x) (\<lambda>y. ebind (emap f xs) (\<lambda>ys. Inr (y # ys)))"

text \<open>\<open>listdir(src, run_silently, recursive)\<close>. On S3 the recursive flag is appended to
  the path without a space, as the source does, and a failing command gives the empty
  set.\<close>

definition listdir :: "os_env \<Rightarrow> string \<Rightarrow> bool \<Rightarrow> py_error + string set" where
  "listdir env src recursive =
     ebind (Address src) (\<lambda>remote.
       if protocol remote = Some ''s3'' then
         (let src = (if \<not> endswith src ''/'' then src @ ''/'' else src);
              cmd = ''aws s3 ls '' @ src;
              cmd = (if recursive then cmd @ ''--recursive'' else cmd)
          in case run_command env cmd of
               Inl e \<Rightarrow> Inr {}
             | Inr raw_output \<Rightarrow>
                 (let raw_lines = py_split raw_output [CHR 10];
                      files = set (map (\<lambda>raw_line. last (py_split raw_line '' '')) raw_lines)
                  in Inr (files - {[]})))
       else if recursive then
         ebind (emap (\<lambda>(rootdir, file). ebind (relpath env rootdir src) (\<lambda>r. Inr (path_join r file)))
                  (concat (map (\<lambda>(rootdir, dirs, files).
                       map (Pair rootdir) (filter (\<lambda>file. \<not> startswith file ''.'') files))
                     (os_walk env src))))
           (\<lambda>names. Inr (set names))
       else ebind (os_listdir env src) (\<lambda>names. Inr (set names)))"

text \<open>\<open>get_sample_file(src)\<close>: a file name, or None.\<close>

definition get_sample_file :: "os_env \<Rightarrow> string \<Rightarrow> py_error + string option" where
  "get_sample_file env src =
     ebind (Address src) (\<lambda>remote.
       if protocol remote = Some ''s3'' then
         (let src = (if \<not> endswith src ''/'' then src @ ''/'' else src)
          in ebind (run_command env (''aws s3 ls '' @ src)) (\<lambda>raw_output.
               let raw_lines = py_split raw_output [CHR 10]
               in if length raw_lines > 0
                  then Inr (Some (last (py_split (hd raw_lines) '' '')))
                  else Inr None))
       else
         (case concat (map (\<lambda>(rootdir, dirs, files).
                   map (Pair rootdir) (filter (\<lambda>file. \<not> startswith file ''.'') files))
                 (os_walk env src)) of
            [] \<Rightarrow> Inr None
          | (rootdir, file) # _ \<Rightarrow> Inr (Some (path_join rootdir file))))"

text \<open>\<open>get_frame_fns(msg, frames, uncompressed, src)\<close>. The result is
  \<open>list(set(frame_fns))\<close>: the names without repetition, in an order Python does not
  fix; callers only turn it into a set or loop over it.\<close>

definition get_frame_fns ::
  "os_env \<Rightarrow> pydict \<Rightarrow> string list \<Rightarrow> bool \<Rightarrow> string \<Rightarrow> py_error + string list" where
  "get_frame_fns env msg frames uncompressed src =
     (if uncompressed then
        ebind (dict_get msg ''app'') (\<lambda>app.
        ebind (as_str app) (\<lambda>app.
          if startswith app ''SimpleMeshRenderer'' then
            ebind (dict_get msg ''file_type'') (\<lambda>img_ext.
              Inr (remdups (map (\<lambda>frame. frame @ ''.'' @ py_str img_ext) frames)))
          else
            (case os_walk env src of
               [] \<Rightarrow> Inl StopIteration
             | (rootdir, cam_dirs, files) # _ \<Rightarrow>
                 ebind (if startswith app ''ConvertToBinary'' \<or> startswith app ''DerpCLI'' then
                          ebind (dict_get msg ''output_formats'') (\<lambda>fmts.
                          ebind (as_str fmts) (\<lambda>fmts.
                            Inr (map (\<lambda>ft. ''.'' @ ft) (py_split fmts '',''))))
                        else
                          (case cam_dirs of
                             [] \<Rightarrow> Inl StopIteration
                           | cam # _ \<Rightarrow>
                               ebind (get_sample_file env (path_join src cam)) (\<lambda>sample_file.
                                 case sample_file of
                                   None \<Rightarrow> Inl TypeError
                                 | Some fn \<Rightarrow> Inr [snd (splitext fn)])))
                   (\<lambda>img_exts.
                      Inr (remdups (concat (map (\<lambda>img_ext.
                             concat (map (\<lambda>frame.
                               map (\<lambda>cam_dir. path_join cam_dir (frame @ img_ext)) cam_dirs)
                             frames))
                           img_exts)))))))
      else Inr (remdups (map (\<lambda>frame. frame @ ''.tar'') frames)))"

section \<open>The frame-chunk cache checker (pipeline.py)\<close>

text \<open>
  A frame chunk is a dictionary with the keys \<open>first\<close> and \<open>last\<close>.
  \<open>chunk_frames\<close> is \<open>get_frame_range(frame_chunk["first"], frame_chunk["last"])\<close>.
\<close>

definition chunk_frames :: "pydict \<Rightarrow> py_error + string list" where
  "chunk_frames frame_chunk =
     ebind (dict_get frame_chunk ''first'') (\<lambda>f.
     ebind (dict_get frame_chunk ''last'') (\<lambda>l.
       get_frame_range f l))"

text \<open>
  \<open>_get_missing_chunks_level\<close>, in three blocks. \<open>level_prelude\<close> is what runs before
  the \<open>try\<close>: the destination directory, the frames from the first chunk's \<open>first\<close> to
  the last chunk's \<open>last\<close>, and whether the destination is unpacked. An exception here
  leaves the function.
\<close>

definition level_prelude ::
  "pydict \<Rightarrow> pyval \<Rightarrow> pydict list \<Rightarrow> py_error + (string \<times> string list \<times> bool)" where
  "level_prelude params level frame_chunks =
     ebind (dict_get params ''dst_image_type'') (\<lambda>image_type.
     ebind (remote_image_type_path params image_type level) (\<lambda>dst_dir.
     ebind (case frame_chunks of [] \<Rightarrow> Inl IndexError
            | c # cs \<Rightarrow> ebind (dict_get c ''first'') (\<lambda>f.
                        ebind (dict_get (last frame_chunks) ''last'') (\<lambda>l.
                          get_frame_range f l))) (\<lambda>dst_frames.
     ebind (Address dst_dir) (\<lambda>remote.
       Inr (dst_dir, dst_frames, protocol remote \<noteq> Some ''s3'')))))"

text \<open>\<open>level_try\<close> is the body of the \<open>try\<close>: the expected file names, as a set, and the
  listing of the destination.\<close>

definition level_try ::
  "os_env \<Rightarrow> pydict \<Rightarrow> string \<times> string list \<times> bool \<Rightarrow> py_error + (string list \<times> string set)" where
  "level_try env params t =
     (case t of (dst_dir, dst_frames, uncompressed) \<Rightarrow>
        ebind (get_frame_fns env params dst_frames uncompressed dst_dir) (\<lambda>fns.
        ebind (listdir env dst_dir True) (\<lambda>actual_frame_fns.
          Inr (remdups fns, actual_frame_fns))))"

text \<open>What follows the \<open>try\<close>: the expected names that are not listed, each cut down to
  \<open>os.path.splitext(os.path.basename(fn))[0]\<close>.\<close>

definition frame_of_fn :: "string \<Rightarrow> string" where
  "frame_of_fn frames_fn = fst (splitext (basename frames_fn))"

definition missing_of :: "string list \<Rightarrow> string set \<Rightarrow> string list" where
  "missing_of expected_frame_fns actual_frame_fns =
     map frame_of_fn (filter (\<lambda>fn. fn \<notin> actual_frame_fns) expected_frame_fns)"

text \<open>The function itself: an exception inside the \<open>try\<close> is caught and the result is
  None.\<close>

definition get_missing_chunks_level ::
  "os_env \<Rightarrow> pydict \<Rightarrow> pyval \<Rightarrow> pydict list \<Rightarrow> py_error + string list option" where
  "get_missing_chunks_level env params level frame_chunks =
     ebind (level_prelude params level frame_chunks) (\<lambda>t.
       case level_try env params t of
         Inl e \<Rightarrow> Inr None
       | Inr (expected_frame_fns, actual_frame_fns) \<Rightarrow>
           Inr (Some (missing_of expected_frame_fns actual_frame_fns)))"

text \<open>The loop of \<open>_get_missing_chunks\<close> over a list of levels: the union of the levels'
  missing frames, or None as soon as one level gives None.\<close>

fun missing_frames_levels ::
  "os_env \<Rightarrow> pydict \<Rightarrow> pydict list \<Rightarrow> pyval list \<Rightarrow> string list \<Rightarrow> py_error + string list option"
  where
  "missing_frames_levels env params frame_chunks [] missing_frames = Inr (Some missing_frames)"
| "missing_frames_levels env params frame_chunks (dst_level # rest) missing_frames =
     ebind (get_missing_chunks_level env params dst_level frame_chunks) (\<lambda>new_missing_chunks.
       case new_missing_chunks of
         None \<Rightarrow> Inr None
       | Some new \<Rightarrow>
           missing_frames_levels env params frame_chunks rest (List.union missing_frames new))"

text \<open>The last loop of \<open>_get_missing_chunks\<close>: a chunk is kept as soon as one frame of
  its range is among the missing frames.\<close>

fun missing_frame_chunks :: "string list \<Rightarrow> pydict list \<Rightarrow> py_error + pydict list" where
  "missing_frame_chunks missing_frames [] = Inr []"
| "missing_frame_chunks missing_frames (frame_chunk # rest) =
     ebind (chunk_frames frame_chunk) (\<lambda>frames.
     ebind (missing_frame_chunks missing_frames rest) (\<lambda>chunks.
       Inr (if list_ex (\<lambda>frame. frame \<in> set missing_frames) frames
            then frame_chunk # chunks else chunks)))"

definition chunks_of_missing :: "string list \<Rightarrow> pydict list \<Rightarrow> py_error + pydict list" where
  "chunks_of_missing missing_frames frame_chunks =
     (if length missing_frames = 0 then Inr []
      else missing_frame_chunks missing_frames frame_chunks)"

definition get_missing_chunks :: "os_env \<Rightarrow> pydict \<Rightarrow> pydict list \<Rightarrow> py_error + pydict list" where
  "get_missing_chunks env params frame_chunks =
     ebind (dict_get params ''force_recompute'') (\<lambda>force.
       if truthy force then Inr frame_chunks
       else
         ebind (dict_get params ''app'') (\<lambda>app.
         ebind (dict_get params ''dst_level'') (\<lambda>dst_level.
         ebind (case dst_level of
                  PList levels \<Rightarrow> missing_frames_levels env params frame_chunks levels []
                | _ \<Rightarrow> get_missing_chunks_level env params dst_level frame_chunks)
           (\<lambda>missing_frames.
              case missing_frames of
                None \<Rightarrow> Inr frame_chunks
              | Some missing_frames \<Rightarrow> chunks_of_missing missing_frames frame_chunks))))"


text \<open>
  The bounds of a chunk as integers, read in the order \<open>get_frame_range\<close> reads them,
  and the test the last loop makes on a chunk: some frame number of its inclusive range
  has its name among the missing frames.
\<close>

definition chunk_bounds :: "pydict \<Rightarrow> py_error + (int \<times> int)" where
  "chunk_bounds frame_chunk =
     ebind (dict_get frame_chunk ''first'') (\<lambda>f.
     ebind (dict_get frame_chunk ''last'') (\<lambda>l.
     ebind (py_int f) (\<lambda>i.
     ebind (py_int l) (\<lambda>j. Inr (i, j)))))"

definition has_missing_frame :: "string list \<Rightarrow> pydict \<Rightarrow> bool" where
  "has_missing_frame missing_frames frame_chunk =
     (case chunk_bounds frame_chunk of
        Inl e \<Rightarrow> False
      | Inr (f, l) \<Rightarrow> list_ex (\<lambda>i. get_frame_name i \<in> set missing_frames) [f..l])"


text \<open>The levels a stage asks for: the elements of \<open>dst_level\<close> when it is a list,
  \<open>dst_level\<close> itself otherwise.\<close>

definition requested_levels :: "pyval \<Rightarrow> pyval list" where
  "requested_levels dst_level = (case dst_level of PList levels \<Rightarrow> levels | _ \<Rightarrow> [dst_level])"

section \<open>Dispatch and the wait loop (pipeline.py)\<close>

text \<open>
  \<open>run_halted_queue\<close> talks to the broker and reads the clock. One \<open>poll\<close> is what one turn
  of the wait loop reads after \<open>time.sleep(1.0)\<close>: the depth of the response queue, the
  consumer count of the work queue, and what \<open>time.time()\<close> answers at the two places
  the turn may call it (where the timer is started, and in the comparison). Clock
  readings are real numbers; the rounding of floating-point subtraction is not
  modelled. The calls that only draw the progress bar are left out, and the broker calls
  are taken to succeed.
\<close>

record poll =
  message_count :: nat
  consumer_count :: nat
  time_set :: real
  time_check :: real

definition no_workers_error :: py_error where
  "no_workers_error = Exception ''No workers for extended time! Check worker logs for errors...''"

text \<open>
  The \<open>while\<close> loop, from any turn boundary: \<open>n\<close> is \<open>len(frame_chunks)\<close>, \<open>k\<close> counts the
  turns made. The polls are the turns the environment still grants: when they run out
  with the loop still waiting the outcome is None.
\<close>

fun wait_loop ::
  "nat \<Rightarrow> nat \<Rightarrow> real option \<Rightarrow> poll list \<Rightarrow> nat \<Rightarrow> (py_error + unit) option \<times> nat" where
  "wait_loop n queue_size no_worker_period [] k =
     (if queue_size \<noteq> n then (None, k) else (Some (Inr ()), k))"
| "wait_loop n queue_size no_worker_period (p # polls) k =
     (if queue_size \<noteq> n then
        (let queue_size = message_count p;
             num_workers = consumer_count p;
             no_worker_period = (if num_workers \<noteq> 0 then None else no_worker_period)
         in if num_workers = 0 then
              (let no_worker_period =
                     (case no_worker_period of None \<Rightarrow> time_set p | Some t \<Rightarrow> t)
               in if time_check p - no_worker_period > NO_WORKER_TIMEOUT
                  then (Some (Inl no_workers_error), Suc k)
                  else wait_loop n queue_size (Some no_worker_period) polls (Suc k))
            else wait_loop n queue_size no_worker_period polls (Suc k))
      else (Some (Inr ()), k))"

text \<open>The publishing loop: \<open>params.update(frame_chunk)\<close> accumulates in \<open>params\<close>, and each
  message is \<open>json.dumps(params)\<close>. \<open>json.dumps\<close> is a parameter.\<close>

fun publish_all :: "(pydict \<Rightarrow> string) \<Rightarrow> pydict \<Rightarrow> pydict list \<Rightarrow> string list \<times> pydict" where
  "publish_all json_dumps params [] = ([], params)"
| "publish_all json_dumps params (frame_chunk # rest) =
     (let params = dict_update params frame_chunk;
          msg = json_dumps params;
          (msgs, params) = publish_all json_dumps params rest
      in (msg # msgs, params))"

text \<open>What a call of \<open>run_halted_queue\<close> did: how it ended (None: still waiting), the
  bodies it published on the work queue, in order, and the turns of the wait loop.\<close>

record rhq_result =
  outcome :: "(py_error + unit) option"
  published :: "string list"
  polls_used :: nat

definition run_halted_queue ::
  "os_env \<Rightarrow> (pydict \<Rightarrow> string) \<Rightarrow> pydict \<Rightarrow> pydict list \<Rightarrow> nat \<Rightarrow> poll list \<Rightarrow> rhq_result" where
  "run_halted_queue env json_dumps params frame_chunks queue_size polls =
     (case get_missing_chunks env params frame_chunks of
        Inl e \<Rightarrow> \<lparr>outcome = Some (Inl e), published = [], polls_used = 0\<rparr>
      | Inr frame_chunks \<Rightarrow>
          if length frame_chunks = 0
          then \<lparr>outcome = Some (Inr ()), published = [], polls_used = 0\<rparr>
          else
            (case publish_all json_dumps params frame_chunks of (msgs, params) \<Rightarrow>
               (case dict_get params ''app'' of
                  Inl e \<Rightarrow> \<lparr>outcome = Some (Inl e), published = msgs, polls_used = 0\<rparr>
                | Inr app \<Rightarrow>
                    (case wait_loop (length frame_chunks) queue_size None polls 0 of
                       (r, k) \<Rightarrow> \<lparr>outcome = r, published = msgs, polls_used = k\<rparr>))))"



section \<open>A small render, used to instantiate the theorems\<close>

text \<open>
  A local render of frames 000000 and 000001 in two chunks, with two cameras. The
  disparity pyramid under \<open>/data/out\<close> has level 0 complete, level 1 without
  \<open>cam1/000001.pfm\<close>, and no directory for level 2.
\<close>

definition example_env :: os_env where
  "example_env =
     \<lparr>run_command = (\<lambda>cmd. Inl CalledProcessError),
      os_walk = (\<lambda>top.
        if top = ''/data/out/disparity_levels/level_0'' then
          [(top, [''cam0'', ''cam1''], []),
           (top @ ''/cam0'', [], [''000000.pfm'', ''000001.pfm'']),
           (top @ ''/cam1'', [], [''000000.pfm'', ''000001.pfm''])]
        else if top = ''/data/out/disparity_levels/level_1'' then
          [(top, [''cam0'', ''cam1''], []),
           (top @ ''/cam0'', [], [''000000.pfm'', ''000001.pfm'']),
           (top @ ''/cam1'', [], [''000000.pfm''])]
        else []),
      os_listdir = (\<lambda>top. Inl OSError),
      relpath = (\<lambda>p start.
        if p = start then Inr ''.''
        else if prefix (start @ ''/'') p then Inr (drop (length start + 1) p)
        else Inl ValueError),
      path_exists = (\<lambda>p. False)\<rparr>"

definition example_params :: pydict where
  "example_params =
     [(''app'', PStr ''DerpCLI: Level 0''),
      (''input_root'', PStr ''/data''),
      (''output_root'', PStr ''/data/out''),
      (''force_recompute'', PBool False),
      (''output_formats'', PStr ''pfm''),
      (''dst_level'', PInt 0),
      (''dst_image_type'', PStr ''disparity'')]"

definition example_chunks :: "pydict list" where
  "example_chunks =
     [[(''first'', PStr ''000000''), (''last'', PStr ''000000'')],
      [(''first'', PStr ''000001''), (''last'', PStr ''000001'')]]"















section \<open>The worker's storage calls (network.py, worker.py)\<close>

text \<open>
  A worker changes the machine it runs on: it copies from the object store, unpacks
  archives, deletes directories. The machine is a state \<open>'w\<close>; a call takes the state and
  returns its result, or the exception it raised, with the new state. \<open>snapshot\<close> is what
  the read-only calls see in a state. \<open>sh\<close> is \<open>run_command\<close>, \<open>tar_extractall fn dst\<close> is
  \<open>tarfile.open(fn)\<close>, \<open>extractall(dst)\<close>, \<open>close()\<close>, and \<open>rmtree\<close> is \<open>shutil.rmtree\<close>.
\<close>

record 'w worker_sys =
  snapshot :: "'w \<Rightarrow> os_env"
  sh :: "string \<Rightarrow> 'w \<Rightarrow> (py_error + string) \<times> 'w"
  tar_extractall :: "string \<Rightarrow> string \<Rightarrow> 'w \<Rightarrow> (py_error + unit) \<times> 'w"
  rmtree :: "string \<Rightarrow> 'w \<Rightarrow> (py_error + unit) \<times> 'w"

definition sbind ::
  "('w \<Rightarrow> (py_error + 'a) \<times> 'w) \<Rightarrow> ('a \<Rightarrow> 'w \<Rightarrow> (py_error + 'b) \<times> 'w)
   \<Rightarrow> 'w \<Rightarrow> (py_error + 'b) \<times> 'w" where
  "sbind m f w = (case m w of (Inl e, w') \<Rightarrow> (Inl e, w') | (Inr x, w') \<Rightarrow> f x w')"

text \<open>A computation that does not touch the machine.\<close>

definition pure :: "py_error + 'a \<Rightarrow> 'w \<Rightarrow> (py_error + 'a) \<times> 'w" where
  "pure r w = (r, w)"

text \<open>\<open>sep.join(xs)\<close>.\<close>

fun join_with :: "string \<Rightarrow> string list \<Rightarrow> string" where
  "join_with sep [] = []"
| "join_with sep [x] = x"
| "join_with sep (x # y # ys) = x @ sep @ join_with sep (y # ys)"

text \<open>\<open>download(src, dst, filters)\<close>: True after the copy command on S3, False without
  any command elsewhere.\<close>

definition download ::
  "'w worker_sys \<Rightarrow> string \<Rightarrow> string \<Rightarrow> string list \<Rightarrow> 'w \<Rightarrow> (py_error + bool) \<times> 'w" where
  "download sys src dst filters =
     sbind (pure (Address src)) (\<lambda>remote.
       if protocol remote = Some ''s3'' then
         (let download_cmd =
                (if CHR ''.'' \<in> set (basename (path remote))
                 then ''aws s3 cp '' @ address remote @ '' '' @ dst
                 else
                   (let filter_cmd = ''--exclude '' @ [CHR 39] @ ''*'' @ [CHR 39] @ '' '' @
                          join_with '' ''
                            (map (\<lambda>f. ''--include '' @ [CHR 39] @ f @ [CHR 39]) filters)
                    in ''aws s3 cp '' @ address remote @ '' '' @ dst @ '' --recursive '' @ filter_cmd))
          in sbind (sh sys download_cmd) (\<lambda>out. pure (Inr True)))
       else pure (Inr False))"

text \<open>\<open>_netop_helper(netop, src, dst, frame_fns)\<close>: the conjunction of the results, every
  file being tried.\<close>

fun netop_helper ::
  "(string \<Rightarrow> string \<Rightarrow> 'w \<Rightarrow> (py_error + bool) \<times> 'w) \<Rightarrow> string \<Rightarrow> string \<Rightarrow> string list
   \<Rightarrow> bool \<Rightarrow> 'w \<Rightarrow> (py_error + bool) \<times> 'w" where
  "netop_helper netop src dst [] completed = pure (Inr completed)"
| "netop_helper netop src dst (frame_fn # rest) completed =
     sbind (netop (path_join src frame_fn) (path_join dst frame_fn)) (\<lambda>ok.
       netop_helper netop src dst rest (completed \<and> ok))"

text \<open>The loop that unpacks the downloaded archives.\<close>

fun extract_all :: "'w worker_sys \<Rightarrow> string \<Rightarrow> string list \<Rightarrow> 'w \<Rightarrow> (py_error + unit) \<times> 'w" where
  "extract_all sys dst [] = pure (Inr ())"
| "extract_all sys dst (frame_tar_fn # rest) =
     sbind (tar_extractall sys (path_join dst frame_tar_fn) dst) (\<lambda>u. extract_all sys dst rest)"

text \<open>\<open>download_image_type(msg, image_type, frames, level)\<close>. Its only \<open>return\<close> statement
  is the last line, \<open>return False\<close>, outside the S3 branch.\<close>

definition download_image_type ::
  "'w worker_sys \<Rightarrow> pydict \<Rightarrow> pyval \<Rightarrow> string list \<Rightarrow> pyval \<Rightarrow> 'w \<Rightarrow> (py_error + bool) \<times> 'w" where
  "download_image_type sys msg image_type frames level =
     sbind (pure (remote_image_type_path msg image_type level)) (\<lambda>src.
     sbind (pure (Address src)) (\<lambda>remote.
     sbind (if protocol remote = Some ''s3'' then
              sbind (pure (remote_image_type_path msg image_type level)) (\<lambda>src.
              sbind (pure (local_image_type_path msg image_type level)) (\<lambda>dst.
              sbind (\<lambda>w. (get_frame_fns (snapshot sys w) msg frames False [], w)) (\<lambda>frame_tar_fns.
              sbind (netop_helper (\<lambda>s d. download sys s d []) src dst frame_tar_fns True)
                (\<lambda>downloaded_frames.
                   if downloaded_frames then extract_all sys dst frame_tar_fns
                   else pure (Inr ())))))
            else pure (Inr ())) (\<lambda>u.
       pure (Inr False))))"

text \<open>\<open>download_image_types(msg, image_type_to_level, frames)\<close>: \<open>ran_download\<close> starts False
  and is or-ed with each result.\<close>

fun download_each ::
  "'w worker_sys \<Rightarrow> pydict \<Rightarrow> (pyval \<times> pyval) list \<Rightarrow> string list \<Rightarrow> bool
   \<Rightarrow> 'w \<Rightarrow> (py_error + bool) \<times> 'w" where
  "download_each sys msg [] frames ran_download = pure (Inr ran_download)"
| "download_each sys msg ((image_type, level) # rest) frames ran_download =
     sbind (download_image_type sys msg image_type frames level) (\<lambda>r.
       download_each sys msg rest frames (ran_download \<or> r))"

definition download_image_types ::
  "'w worker_sys \<Rightarrow> pydict \<Rightarrow> (pyval \<times> pyval) list \<Rightarrow> string list option
   \<Rightarrow> 'w \<Rightarrow> (py_error + bool) \<times> 'w" where
  "download_image_types sys msg image_type_to_level frames =
     sbind (case frames of
              None \<Rightarrow> pure (ebind (dict_get msg ''first'') (\<lambda>f.
                             ebind (dict_get msg ''last'') (\<lambda>l. get_frame_range f l)))
            | Some fs \<Rightarrow> pure (Inr fs)) (\<lambda>frames.
       download_each sys msg image_type_to_level frames False)"

text \<open>\<open>_clean_worker(ran_download, ran_upload)\<close>. Both tests look at the input root, as
  the source does.\<close>

definition clean_worker ::
  "'w worker_sys \<Rightarrow> bool \<Rightarrow> bool \<Rightarrow> 'w \<Rightarrow> (py_error + unit) \<times> 'w" where
  "clean_worker sys ran_download ran_upload =
     sbind (\<lambda>w. if ran_download \<and> path_exists (snapshot sys w) DOCKER_INPUT_ROOT
                 then rmtree sys DOCKER_INPUT_ROOT w else (Inr (), w)) (\<lambda>u.
       (\<lambda>w. if ran_upload \<and> path_exists (snapshot sys w) DOCKER_INPUT_ROOT
             then rmtree sys DOCKER_OUTPUT_ROOT w else (Inr (), w)))"

text \<open>A worker machine that records the commands it runs: the state is the list of
  commands, every command succeeds.\<close>

definition logging_sys :: "string list worker_sys" where
  "logging_sys =
     \<lparr>snapshot = (\<lambda>w. example_env),
      sh = (\<lambda>cmd w. (Inr [], w @ [cmd])),
      tar_extractall = (\<lambda>fn dst w. (Inr (), w @ [''untar '' @ fn @ '' '' @ dst])),
      rmtree = (\<lambda>p w. (Inr (), w @ [''rmtree '' @ p]))\<rparr>"

definition s3_msg :: pydict where
  "s3_msg = [(''app'', PStr ''DerpCLI: Level 0''),
             (''input_root'', PStr ''s3://bucket/project''),
             (''output_root'', PStr ''s3://bucket/project/out''),
             (''first'', PStr ''000000''), (''last'', PStr ''000000'')]"


section \<open>The worker's message handling (worker.py)\<close>














section \<open>Depth estimation (pipeline.py)\<close>

text \<open>
  The pipeline object. A stage calls \<open>run_halted_queue\<close> several times; here the call is
  a parameter \<open>rhq\<close> that takes the parameters and the chunk list (None when
  \<open>self.background_frame\<close> is None) and acts on a state, so that what a stage dispatches,
  and in which order, can be read off whatever \<open>run_halted_queue\<close> does.
\<close>

record pipeline =
  base_params :: pydict
  self_frame_chunks :: "pydict list"
  background_frame :: "pydict list option"

text \<open>Arithmetic on a value: an int, or a bool, which Python counts as an int.\<close>

fun num :: "pyval \<Rightarrow> py_error + int" where
  "num (PInt i) = Inr i"
| "num (PBool b) = Inr (if b then 1 else 0)"
| "num v = Inl TypeError"

text \<open>\<open>os.path.join(self.base_params["input_root"],
  image_type_paths[config.type_to_levels_type[t]])\<close>.\<close>

definition levels_path :: "pydict \<Rightarrow> string \<Rightarrow> py_error + pyval" where
  "levels_path params t =
     ebind (dict_get params ''input_root'') (\<lambda>r.
     ebind (dict_get type_to_levels_type t) (\<lambda>lt.
     ebind (dict_get_val image_type_paths lt) (\<lambda>rel.
     ebind (as_path r) (\<lambda>r.
     ebind (as_path rel) (\<lambda>rel. Inr (PStr (path_join r rel)))))))"

definition post_resize :: "pydict \<Rightarrow> py_error + pydict" where
  "post_resize params =
     ebind (dict_get params ''disparity_type'') (\<lambda>dt.
       if dt = PStr ''disparity'' then
         ebind (levels_path params ''color'') (\<lambda>c.
         ebind (levels_path params ''foreground_masks'') (\<lambda>f.
         ebind (levels_path params ''background_disp'') (\<lambda>b.
           Inr (AList.update ''background_disp'' b
                 (AList.update ''foreground_masks'' f
                   (AList.update ''color'' c params))))))
       else if dt = PStr ''background_disp'' then
         ebind (levels_path params ''color'') (\<lambda>c. Inr (AList.update ''color'' c params))
       else Inr params)"

text \<open>The search for \<open>end_level\<close> over \<open>enumerate(config.WIDTHS)\<close>; None is the name left
  unbound.\<close>

fun find_end_level :: "pydict \<Rightarrow> (int \<times> int) list \<Rightarrow> py_error + pyval option" where
  "find_end_level prp [] = Inr None"
| "find_end_level prp ((level, width) # rest) =
     ebind (dict_get prp ''resolution'') (\<lambda>r.
     ebind (num r) (\<lambda>ri.
       if ri \<ge> width then Inr (Some (PInt level)) else find_end_level prp rest))"

definition enumerate_widths :: "(int \<times> int) list" where
  "enumerate_widths = zip [0..int (length WIDTHS) - 1] WIDTHS"

text \<open>One entry of \<open>filter_ranges\<close>.\<close>

definition filter_range :: "pydict \<Rightarrow> pydict \<Rightarrow> py_error + pydict" where
  "filter_range prp frame_chunk =
     ebind (dict_get frame_chunk ''first'') (\<lambda>f.
     ebind (dict_get frame_chunk ''last'') (\<lambda>l.
     ebind (dict_get prp ''first'') (\<lambda>pf.
     ebind (py_int pf) (\<lambda>pfi.
     ebind (py_int f) (\<lambda>fi.
     ebind (dict_get prp ''time_radius'') (\<lambda>tr.
     ebind (num tr) (\<lambda>tri.
     ebind (dict_get prp ''last'') (\<lambda>pl.
     ebind (py_int pl) (\<lambda>pli.
     ebind (py_int l) (\<lambda>li.
       Inr [(''first'', f), (''last'', l),
            (''filter_first'', PStr (get_frame_name (max pfi (fi - tri)))),
            (''filter_last'', PStr (get_frame_name (min pli (li + tri))))]))))))))))"

text \<open>Everything before the first dispatch: the overlay, \<open>start_level\<close>, \<open>end_level\<close>
  and \<open>filter_ranges\<close>.\<close>

definition depth_prelude ::
  "pipeline \<Rightarrow> py_error + (pydict \<times> pyval \<times> pyval option \<times> pydict list)" where
  "depth_prelude self =
     ebind (post_resize (base_params self)) (\<lambda>prp.
     ebind (dict_get prp ''level_start'') (\<lambda>ls.
     ebind (dict_get prp ''level_end'') (\<lambda>le.
     ebind (if le \<noteq> PInt (- 1) then Inr (Some le) else find_end_level prp enumerate_widths)
       (\<lambda>end_level.
     ebind (emap (filter_range prp) (self_frame_chunks self)) (\<lambda>filter_ranges.
       Inr (prp, (if ls \<noteq> PInt (- 1) then ls else PInt (int (length WIDTHS) - 1)),
            end_level, filter_ranges))))))"

text \<open>
  The block "Optionally batch coarsest N levels in one job": it may dispatch one
  batched job, and then it lowers \<open>start_level\<close>. The result is \<open>start_level\<close> as the block
  leaves it.
\<close>

definition batch_coarsest ::
  "(pydict \<Rightarrow> pydict list option \<Rightarrow> 's \<Rightarrow> (py_error + unit) \<times> 's) \<Rightarrow> pipeline \<Rightarrow> pydict
   \<Rightarrow> pyval \<Rightarrow> pyval option \<Rightarrow> 's \<Rightarrow> (py_error + pyval) \<times> 's" where
  "batch_coarsest rhq self prp start_level end_level =
     sbind (pure (py_int (case map_of (base_params self) ''coarsest_batch_levels'' of
                            None \<Rightarrow> PInt 0 | Some v \<Rightarrow> v))) (\<lambda>coarsest_batch.
       if coarsest_batch > 0 then
         sbind (pure (case end_level of
                        None \<Rightarrow> Inl UnboundLocalError
                      | Some e \<Rightarrow> ebind (num e) (\<lambda>ei.
                                  ebind (num start_level) (\<lambda>si. Inr (e, ei, si)))))
           (\<lambda>(e, ei, si).
              let batch_start = start_level;
                  x = si - coarsest_batch + 1;
                  batch_end = (if x > ei then PInt x else e);
                  bei = (if x > ei then x else ei)
              in if bei \<le> si then
                   (let batched_params = AList.update ''output_formats'' (PStr ''pfm'') prp
                    in sbind (pure (ebind (dict_get batched_params ''disparity_type'') (\<lambda>dt.
                         Inr (dict_update batched_params
                           [(''app'', PStr (''DerpCLI: Levels '' @ py_str batch_start @ ''-''
                                            @ py_str batch_end)),
                            (''level_start'', batch_start),
                            (''level_end'', batch_end),
                            (''image_type'', dt),
                            (''dst_level'', PList (map PInt [bei..si])),
                            (''dst_image_type'', dt)])))) (\<lambda>batched_params.
                       sbind (rhq batched_params (Some (self_frame_chunks self))) (\<lambda>u.
                         pure (Inr (PInt (bei - 1))))))
                 else pure (Inr start_level))
       else pure (Inr start_level))"

text \<open>The parameters of the transfer job of a level, in the temporal-filter path.\<close>

definition level_transfer_params :: "pydict \<Rightarrow> int \<Rightarrow> pydict" where
  "level_transfer_params prp level =
     dict_update prp
       [(''app'', PStr ''Transfer''),
        (''src_level'', PInt level),
        (''src_image_type'', PStr ''disparity_time_filtered''),
        (''dst_level'', PInt level),
        (''dst_image_type'', PStr ''disparity''),
        (''force_recompute'', PBool True)]"

text \<open>The body of the loop over the levels: the depth job, and with
  \<open>do_temporal_filter\<close> the filter job and the transfer job, which forces
  recomputation.\<close>

definition level_job ::
  "(pydict \<Rightarrow> pydict list option \<Rightarrow> 's \<Rightarrow> (py_error + unit) \<times> 's) \<Rightarrow> pipeline \<Rightarrow> pydict
   \<Rightarrow> pydict list \<Rightarrow> int \<Rightarrow> int \<Rightarrow> 's \<Rightarrow> (py_error + unit) \<times> 's" where
  "level_job rhq self prp filter_ranges ei level =
     (let depth_params = (if level \<noteq> ei then AList.update ''output_formats'' (PStr ''pfm'') prp
                          else prp)
      in sbind (pure (ebind (dict_get depth_params ''disparity_type'') (\<lambda>dt.
           Inr (dict_update depth_params
             [(''app'', PStr (''DerpCLI: Level '' @ str_int level)),
              (''level_start'', PInt level),
              (''level_end'', PInt level),
              (''image_type'', dt),
              (''dst_level'', PInt level),
              (''dst_image_type'', dt)])))) (\<lambda>depth_params.
         sbind (rhq depth_params (Some (self_frame_chunks self))) (\<lambda>u.
         sbind (pure (dict_get prp ''do_temporal_filter'')) (\<lambda>tf.
           if truthy tf then
             sbind (pure (ebind (dict_get prp ''do_temporal_masking'') (\<lambda>tm.
               Inr (dict_update prp
                 [(''app'', PStr ''TemporalBilateralFilter''),
                  (''level'', PInt level),
                  (''use_foreground_masks'', tm),
                  (''dst_level'', PInt level),
                  (''dst_image_type'', PStr ''disparity_time_filtered'')])))) (\<lambda>filter_params.
             sbind (rhq filter_params (Some filter_ranges)) (\<lambda>u.
               rhq (level_transfer_params prp level) (Some (self_frame_chunks self))))
           else pure (Inr ())))))"

fun level_jobs ::
  "(pydict \<Rightarrow> pydict list option \<Rightarrow> 's \<Rightarrow> (py_error + unit) \<times> 's) \<Rightarrow> pipeline \<Rightarrow> pydict
   \<Rightarrow> pydict list \<Rightarrow> int \<Rightarrow> int list \<Rightarrow> 's \<Rightarrow> (py_error + unit) \<times> 's" where
  "level_jobs rhq self prp filter_ranges ei [] = pure (Inr ())"
| "level_jobs rhq self prp filter_ranges ei (level # rest) =
     sbind (level_job rhq self prp filter_ranges ei level) (\<lambda>u.
       level_jobs rhq self prp filter_ranges ei rest)"

text \<open>
  Lines 364 to 432 of pipeline.py: the batching block, then
  \<open>for level in range(start_level, end_level - 1, -1)\<close>. Lines 434 to 502 are the same
  text once more; \<open>start_level\<close> is the one variable the text assigns that it also reads
  at its start, so a pass takes it and returns it.
\<close>

definition level_pass ::
  "(pydict \<Rightarrow> pydict list option \<Rightarrow> 's \<Rightarrow> (py_error + unit) \<times> 's) \<Rightarrow> pipeline \<Rightarrow> pydict
   \<Rightarrow> pydict list \<Rightarrow> pyval \<Rightarrow> pyval option \<Rightarrow> 's \<Rightarrow> (py_error + pyval) \<times> 's" where
  "level_pass rhq self prp filter_ranges start_level end_level =
     sbind (batch_coarsest rhq self prp start_level end_level) (\<lambda>start_level.
     sbind (pure (case end_level of
                    None \<Rightarrow> Inl UnboundLocalError
                  | Some e \<Rightarrow> ebind (num e) (\<lambda>ei.
                              ebind (num start_level) (\<lambda>si. Inr (ei, si))))) (\<lambda>(ei, si).
     sbind (level_jobs rhq self prp filter_ranges ei (rev [ei..si])) (\<lambda>u.
       pure (Inr start_level))))"

text \<open>\<open>config.WIDTHS[i]\<close>: Python reads position \<open>i\<close> from the front when \<open>i\<close> is not
  negative and position \<open>len + i\<close> otherwise, and raises IndexError outside the list.\<close>

fun py_index :: "'a list \<Rightarrow> int \<Rightarrow> py_error + 'a" where
  "py_index xs i =
     (if i \<ge> int (length xs) \<or> i < - int (length xs) then Inl IndexError
      else if i \<ge> 0 then Inr (xs ! nat i)
      else Inr (xs ! nat (int (length xs) + i)))"

text \<open>The end of \<open>depth_estimation\<close>: upsampling and a transfer, or a transfer alone.\<close>

definition final_step ::
  "(pydict \<Rightarrow> pydict list option \<Rightarrow> 's \<Rightarrow> (py_error + unit) \<times> 's) \<Rightarrow> pipeline \<Rightarrow> pydict
   \<Rightarrow> pyval option \<Rightarrow> 's \<Rightarrow> (py_error + unit) \<times> 's" where
  "final_step rhq self prp end_level =
     sbind (pure (ebind (dict_get prp ''resolution'') (\<lambda>r.
                  ebind (case end_level of None \<Rightarrow> Inl UnboundLocalError | Some e \<Rightarrow> Inr e) (\<lambda>e.
                  ebind (num e) (\<lambda>ei.
                  ebind (py_index WIDTHS ei) (\<lambda>width.
                  ebind (num r) (\<lambda>ri. Inr (e, ei, ri > width))))))))
       (\<lambda>(e, ei, upsample).
          if upsample then
            (let dst_level = (if ei > 0 then PInt (ei - 1) else PNone)
             in sbind (pure (ebind (dict_get prp ''disparity_type'') (\<lambda>dt.
                  ebind (dict_get type_to_upsample_type ''disparity'') (\<lambda>ut.
                  ebind (if dt = PStr ''background_disp'' then Inr (background_frame self)
                         else if dt = PStr ''disparity'' then Inr (Some (self_frame_chunks self))
                         else Inl (Exception (''Invalid disparity type '' @ py_str dt)))
                    (\<lambda>frame_chunks.
                       Inr (dict_update (base_params self)
                              [(''app'', PStr ''UpsampleDisparity''),
                               (''level'', e),
                               (''image_type'', dt),
                               (''dst_level'', dst_level),
                               (''dst_image_type'', ut)],
                            dict_update prp
                              [(''app'', PStr ''Transfer''),
                               (''src_level'', PNone),
                               (''src_image_type'', ut),
                               (''dst_level'', PNone),
                               (''dst_image_type'', dt)],
                            frame_chunks))))))
                  (\<lambda>(upsample_params, transfer_params, frame_chunks).
                     sbind (rhq upsample_params frame_chunks) (\<lambda>u.
                       rhq transfer_params frame_chunks)))
          else
            sbind (pure (ebind (dict_get prp ''disparity_type'') (\<lambda>dt.
                   Inr (dict_update prp
                          [(''app'', PStr ''Transfer''),
                           (''src_level'', e),
                           (''src_image_type'', dt),
                           (''dst_level'', PNone),
                           (''dst_image_type'', dt)]))))
              (\<lambda>transfer_params. rhq transfer_params (Some (self_frame_chunks self))))"

definition depth_estimation ::
  "(pydict \<Rightarrow> pydict list option \<Rightarrow> 's \<Rightarrow> (py_error + unit) \<times> 's) \<Rightarrow> pipeline
   \<Rightarrow> 's \<Rightarrow> (py_error + unit) \<times> 's" where
  "depth_estimation rhq self =
     sbind (pure (depth_prelude self)) (\<lambda>(prp, start_level, end_level, filter_ranges).
     sbind (level_pass rhq self prp filter_ranges start_level end_level) (\<lambda>start_level.
     sbind (level_pass rhq self prp filter_ranges start_level end_level) (\<lambda>start_level.
       final_step rhq self prp end_level)))"


definition record_name :: "pydict \<Rightarrow> pydict list option \<Rightarrow> string list
   \<Rightarrow> (py_error + unit) \<times> string list" where
  "record_name params chunks calls =
     (Inr (), calls @ [(case map_of params ''app'' of None \<Rightarrow> [] | Some a \<Rightarrow> py_str a) @ '' -> ''
                     @ (case map_of params ''dst_level'' of None \<Rightarrow> [] | Some l \<Rightarrow> py_str l)])"

text \<open>A pipeline with five pyramid levels to compute, temporal filtering on, and the
  two coarsest levels batched; and the same without batching.\<close>

definition batched_pipeline :: pipeline where
  "batched_pipeline =
     \<lparr>base_params =
        [(''disparity_type'', PStr ''disparity''), (''input_root'', PStr ''/data''),
         (''output_root'', PStr ''/data/out''), (''force_recompute'', PBool False),
         (''level_start'', PInt 4), (''level_end'', PInt 0), (''resolution'', PInt 2048),
         (''first'', PStr ''000000''), (''last'', PStr ''000001''), (''time_radius'', PInt 1),
         (''do_temporal_filter'', PBool True), (''do_temporal_masking'', PBool False),
         (''coarsest_batch_levels'', PInt 2)],
      self_frame_chunks = example_chunks,
      background_frame = None\<rparr>"

definition plain_pipeline :: pipeline where
  "plain_pipeline =
     batched_pipeline\<lparr>base_params :=
        AList.update ''level_start'' (PInt 1)
          (AList.update ''coarsest_batch_levels'' (PInt 0) (base_params batched_pipeline))\<rparr>"








section \<open>Verification\<close>

subsection \<open>Frame names\<close>

lemma str_nat_digits: "list_all is_digit (str_nat n)"
proof (induction n rule: str_nat.induct)
  case (1 n)
  have d: "is_digit (digit_char k)" if "k < 10" for k
    using that by (simp add: is_digit_def digit_char_def)
  show ?case
  proof (cases "n < 10")
    case True
    then show ?thesis by (subst str_nat.simps) (simp add: d)
  next
    case False
    then show ?thesis using 1 by (subst str_nat.simps) (simp add: d)
  qed
qed

lemma str_nat_length: "n < 10 ^ k \<Longrightarrow> 0 < k \<Longrightarrow> length (str_nat n) \<le> k"
proof (induction n arbitrary: k rule: str_nat.induct)
  case (1 n)
  show ?case
  proof (cases "n < 10")
    case True
    then show ?thesis using 1(3) by (subst str_nat.simps) simp
  next
    case False
    then obtain k' where k: "k = Suc k'" using 1(3) by (cases k) auto
    with False 1(2) have "0 < k'" by (cases k') auto
    moreover from k 1(2) have "n div 10 < 10 ^ k'" by (simp add: less_mult_imp_div_less mult.commute)
    ultimately have "length (str_nat (n div 10)) \<le> k'" using 1(1) False by blast
    then show ?thesis using False k by (subst str_nat.simps) simp
  qed
qed

lemma parse_digits_all: "list_all is_digit s \<Longrightarrow> parse_digits acc s = Some (dval acc s)"
  by (induction acc s rule: parse_digits.induct) (auto simp: dval_def)

lemma digit_not_space: "is_digit c \<Longrightarrow> \<not> py_isspace c"
  by (auto simp: is_digit_def py_isspace_def)

lemma strip_digits: "list_all is_digit s \<Longrightarrow> strip s = s"
proof (cases s rule: rev_cases)
  case Nil
  then show ?thesis by (simp add: strip_def)
next
  case (snoc t c)
  assume a: "list_all is_digit s"
  then have c: "\<not> py_isspace c" using snoc by (simp add: digit_not_space)
  from a have "s = [] \<or> \<not> py_isspace (hd s)" by (cases s) (auto simp: digit_not_space)
  then have "dropWhile py_isspace s = s" by (cases s) auto
  then show ?thesis using snoc c by (simp add: strip_def)
qed

lemma digit_not_sign: "is_digit c \<Longrightarrow> c \<noteq> CHR ''-'' \<and> c \<noteq> CHR ''+''"
  by (auto simp: is_digit_def)

lemma int_of_str_digits:
  "list_all is_digit s \<Longrightarrow> s \<noteq> [] \<Longrightarrow> int_of_str s = Inr (int (dval 0 s))"
  by (cases s) (auto simp: int_of_str_def strip_digits parse_nat_def parse_digits_all
      digit_not_sign dval_def)

lemma dval_snoc: "dval acc (s @ [c]) = 10 * dval acc s + digit_val c"
  by (simp add: dval_def)

lemma dval_zero: "list_all is_digit s \<Longrightarrow> dval 0 s = 0 \<Longrightarrow> \<forall>x \<in> set s. x = CHR ''0''"
proof (induction s rule: rev_induct)
  case Nil
  then show ?case by simp
next
  case (snoc c t)
  from snoc.prems have z: "dval 0 t = 0" and dz: "digit_val c = 0" and dc: "is_digit c"
    and dt: "list_all is_digit t"
    by (auto simp: dval_snoc)
  from dz dc have "of_char c = (48::nat)" by (auto simp: digit_val_def is_digit_def)
  then have "(of_char c :: nat) = of_char (CHR ''0'')" by simp
  then have "c = CHR ''0''" by (simp only: of_char_eq_iff)
  moreover have "\<forall>x \<in> set t. x = CHR ''0''" using snoc.IH dt z by blast
  ultimately show ?case by simp
qed

lemma digit_char_val: "is_digit c \<Longrightarrow> digit_char (digit_val c) = c"
  by (simp add: is_digit_def digit_char_def digit_val_def)

lemma digit_val_lt: "is_digit c \<Longrightarrow> digit_val c < 10"
  by (auto simp: is_digit_def digit_val_def)

lemma dval_bound: "list_all is_digit s \<Longrightarrow> dval 0 s < 10 ^ length s"
proof (induction s rule: rev_induct)
  case Nil then show ?case by (simp add: dval_def)
next
  case (snoc c t)
  then have "dval 0 t < 10 ^ length t" "digit_val c < 10" by (auto simp: digit_val_lt)
  then show ?case by (simp add: dval_snoc)
qed

lemma str_nat_dval: "list_all is_digit s \<Longrightarrow> s \<noteq> [] \<Longrightarrow>
   rjust (length s) (CHR ''0'') (str_nat (dval 0 s)) = s"
proof (induction s rule: rev_induct)
  case Nil
  then show ?case by simp
next
  case (snoc c t)
  then have dc: "is_digit c" and dt: "list_all is_digit t" by auto
  let ?v = "dval 0 t"
  have lt: "digit_val c < 10" using dc by (rule digit_val_lt)
  show ?case
  proof (cases "?v = 0")
    case True
    then have "\<forall>x \<in> set t. x = CHR ''0''" using dt dval_zero by blast
    then have t: "replicate (length t) (CHR ''0'') = t" by (rule replicate_length_same)
    have "str_nat (dval 0 (t @ [c])) = [c]"
      using True lt dc by (subst str_nat.simps) (simp add: dval_snoc digit_char_val)
    then show ?thesis using t by (simp add: rjust_def)
  next
    case False
    then have tne: "t \<noteq> []" by (auto simp: dval_def)
    have ih: "rjust (length t) (CHR ''0'') (str_nat ?v) = t" using snoc.IH dt tne by blast
    have "\<not> 10 * ?v + digit_val c < 10" using False by simp
    then have s: "str_nat (dval 0 (t @ [c])) = str_nat ?v @ [c]"
      using lt dc by (subst str_nat.simps) (simp add: dval_snoc digit_char_val)
    show ?thesis using ih by (simp add: s rjust_def)
  qed
qed


lemma frame_id_int: "is_frame_id s \<Longrightarrow> py_int (PStr s) = Inr (int (dval 0 s))"
proof -
  assume a: "is_frame_id s"
  then have "s \<noteq> []" "list_all is_digit s" by (auto simp: is_frame_id_def)
  then show ?thesis by (simp add: int_of_str_digits)
qed

lemma frame_id_name: "is_frame_id s \<Longrightarrow> get_frame_name (int (dval 0 s)) = s"
proof -
  assume a: "is_frame_id s"
  then have "s \<noteq> []" "list_all is_digit s" "length s = 6" by (auto simp: is_frame_id_def)
  then have "rjust 6 (CHR ''0'') (str_nat (dval 0 s)) = s" using str_nat_dval [of s] by simp
  then show ?thesis by (simp add: get_frame_name_def str_int_def)
qed



lemma frame_name_is_id: "0 \<le> i \<Longrightarrow> i < 1000000 \<Longrightarrow> is_frame_id (get_frame_name i)"
proof -
  assume a: "0 \<le> i" "i < 1000000"
  then have "nat i < 10 ^ 6" by simp
  then have len: "length (str_nat (nat i)) \<le> 6" by (rule str_nat_length) simp
  have z: "is_digit (CHR ''0'')" by (simp add: is_digit_def)
  have "list_all is_digit (replicate (6 - length (str_nat (nat i))) (CHR ''0'') @ str_nat (nat i))"
    using z str_nat_digits [of "nat i"] by (auto simp: list_all_iff)
  then show ?thesis using a len
    by (simp add: is_frame_id_def get_frame_name_def str_int_def rjust_def)
qed

text \<open>
  Claim C7. For a chunk whose bounds are frame identifiers (six digits) with
  \<open>int(first) \<le> int(last)\<close>, \<open>get_frame_range(first, last)\<close> returns exactly
  \<open>last - first + 1\<close> names; the name at position \<open>i\<close> is
  \<open>get_frame_name(first + i)\<close>, every name is a six-digit identifier, and the first and
  the last names are the two bounds themselves.
\<close>

theorem get_frame_range_inclusive:
  assumes "is_frame_id a" and "is_frame_id b"
    and "py_int (PStr a) = Inr f" and "py_int (PStr b) = Inr l" and "f \<le> l"
  shows "\<exists>names. get_frame_range (PStr a) (PStr b) = Inr names
           \<and> int (length names) = l - f + 1
           \<and> (\<forall>i < length names. names ! i = get_frame_name (f + int i))
           \<and> (\<forall>n \<in> set names. is_frame_id n)
           \<and> hd names = a \<and> last names = b"
proof -
  let ?names = "map get_frame_name [f..l]"
  have fa: "f = int (dval 0 a)" and lb: "l = int (dval 0 b)"
    using assms(3,4) frame_id_int [OF assms(1)] frame_id_int [OF assms(2)] by auto
  have f0: "0 \<le> f" using fa by simp
  have "dval 0 b < 10 ^ length b" using assms(2) by (intro dval_bound) (simp add: is_frame_id_def)
  then have l6: "l < 1000000" using lb assms(2) by (simp add: is_frame_id_def)
  have ne: "[f..l] \<noteq> []" using assms(5) by simp
  have r: "get_frame_range (PStr a) (PStr b) = Inr ?names"
    using assms(3,4) by (simp add: get_frame_range_def ebind_def)
  have len: "int (length ?names) = l - f + 1" using assms(5) by simp
  have nth: "\<forall>i < length ?names. ?names ! i = get_frame_name (f + int i)" by simp
  have ids: "\<forall>n \<in> set ?names. is_frame_id n"
    using f0 l6 by (auto intro!: frame_name_is_id)
  have "hd [f..l] = f" using assms(5) by (simp add: upto_rec1)
  then have h: "hd ?names = a" using ne assms(1) fa by (simp add: hd_map frame_id_name)
  have "last [f..l] = l" using assms(5) by (simp add: upto_rec2)
  then have t: "last ?names = b" using ne assms(2) lb by (simp add: last_map frame_id_name)
  show ?thesis using r len nth ids h t by blast
qed

theorem get_frame_range_inclusive_witness:
  "\<exists>names. get_frame_range (PStr ''000008'') (PStr ''000011'') = Inr names
           \<and> int (length names) = 11 - 8 + 1
           \<and> (\<forall>i < length names. names ! i = get_frame_name (8 + int i))
           \<and> (\<forall>n \<in> set names. is_frame_id n)
           \<and> hd names = ''000008'' \<and> last names = ''000011''"
proof -
  have a: "is_frame_id ''000008''" by (simp add: is_frame_id_def is_digit_def)
  have b: "is_frame_id ''000011''" by (simp add: is_frame_id_def is_digit_def)
  have f: "py_int (PStr ''000008'') = Inr 8" by code_simp
  have l: "py_int (PStr ''000011'') = Inr 11" by code_simp
  have le: "(8::int) \<le> 11" by simp
  show ?thesis by (rule get_frame_range_inclusive [OF a b f l le])
qed

subsection \<open>Chunks of the missing frames\<close>

lemma chunk_frames_bounds:
  "chunk_bounds c = Inr (f, l) \<Longrightarrow> chunk_frames c = Inr (map get_frame_name [f..l])"
  by (auto simp: chunk_bounds_def chunk_frames_def get_frame_range_def ebind_def
      split: sum.splits)

lemma has_missing_frame_iff:
  "chunk_bounds c = Inr (f, l) \<Longrightarrow>
   has_missing_frame mf c = (\<exists>i. f \<le> i \<and> i \<le> l \<and> get_frame_name i \<in> set mf)"
  by (auto simp: has_missing_frame_def list_ex_iff)

lemma missing_frame_chunks_filter:
  "(\<forall>c \<in> set cs. \<exists>f l. chunk_bounds c = Inr (f, l)) \<Longrightarrow>
   missing_frame_chunks mf cs = Inr (filter (has_missing_frame mf) cs)"
proof (induction cs)
  case Nil
  then show ?case by simp
next
  case (Cons c cs)
  then obtain f l where b: "chunk_bounds c = Inr (f, l)" by auto
  have ih: "missing_frame_chunks mf cs = Inr (filter (has_missing_frame mf) cs)"
    using Cons by simp
  have "list_ex (\<lambda>frame. frame \<in> set mf) (map get_frame_name [f..l]) = has_missing_frame mf c"
    using b by (simp add: has_missing_frame_def list_ex_iff)
  then show ?case
    by (simp add: chunk_frames_bounds [OF b] ih ebind_def)
qed

lemma has_missing_frame_empty: "\<not> has_missing_frame [] c"
  by (auto simp: has_missing_frame_def list_ex_iff split: sum.splits)

lemma chunks_of_missing_filter:
  "(\<forall>c \<in> set cs. \<exists>f l. chunk_bounds c = Inr (f, l)) \<Longrightarrow>
   chunks_of_missing mf cs = Inr (filter (has_missing_frame mf) cs)"
  by (cases mf) (simp_all add: chunks_of_missing_def missing_frame_chunks_filter
      has_missing_frame_empty)

text \<open>
  Claim C6. Whatever the missing-frame set, a chunk is in the returned list exactly when
  it is a chunk of the request and some frame number \<open>i\<close> of its inclusive range
  \<open>first \<le> i \<le> last\<close> has its name in the set: the result is the chunk list filtered by
  that test, whole chunks in their order, never single frames.
\<close>

theorem chunk_granularity:
  assumes "\<forall>c \<in> set frame_chunks. \<exists>f l. chunk_bounds c = Inr (f, l)"
  shows "\<exists>result. chunks_of_missing missing_frames frame_chunks = Inr result
           \<and> result = filter (has_missing_frame missing_frames) frame_chunks
           \<and> (\<forall>c. c \<in> set result \<longleftrightarrow>
                 c \<in> set frame_chunks \<and>
                 (\<exists>f l i. chunk_bounds c = Inr (f, l) \<and> f \<le> i \<and> i \<le> l
                    \<and> get_frame_name i \<in> set missing_frames))"
proof -
  let ?r = "filter (has_missing_frame missing_frames) frame_chunks"
  have r: "chunks_of_missing missing_frames frame_chunks = Inr ?r"
    using assms by (rule chunks_of_missing_filter)
  have "c \<in> set ?r \<longleftrightarrow> c \<in> set frame_chunks \<and>
          (\<exists>f l i. chunk_bounds c = Inr (f, l) \<and> f \<le> i \<and> i \<le> l
             \<and> get_frame_name i \<in> set missing_frames)" for c
  proof (cases "c \<in> set frame_chunks")
    case True
    then obtain f l where b: "chunk_bounds c = Inr (f, l)" using assms by blast
    show ?thesis using True b has_missing_frame_iff [OF b, of missing_frames] by auto
  next
    case False
    then show ?thesis by simp
  qed
  then show ?thesis using r by blast
qed

lemma chunk_bounds_example_low: "chunk_bounds [(''first'', PStr ''000000''), (''last'', PStr ''000001'')] = Inr (0, 1)"
  by code_simp
lemma chunk_bounds_example_high: "chunk_bounds [(''first'', PStr ''000002''), (''last'', PStr ''000003'')] = Inr (2, 3)"
  by code_simp

theorem chunk_granularity_witness:
  "\<exists>result. chunks_of_missing [''000003'']
       [[(''first'', PStr ''000000''), (''last'', PStr ''000001'')],
        [(''first'', PStr ''000002''), (''last'', PStr ''000003'')]] = Inr result
     \<and> result = [[(''first'', PStr ''000002''), (''last'', PStr ''000003'')]]"
proof -
  let ?cs = "[[(''first'', PStr ''000000''), (''last'', PStr ''000001'')],
        [(''first'', PStr ''000002''), (''last'', PStr ''000003'')]]"
  have h: "\<forall>c \<in> set ?cs. \<exists>f l. chunk_bounds c = Inr (f, l)" using chunk_bounds_example_low chunk_bounds_example_high by simp
  have f: "filter (has_missing_frame [''000003'']) ?cs = [[(''first'', PStr ''000002''), (''last'', PStr ''000003'')]]"
    by code_simp
  show ?thesis using chunk_granularity [OF h, of "[''000003'']"] f by simp
qed

subsection \<open>The cache checker\<close>


lemma level_listing_fails:
  assumes "level_prelude params l chunks = Inr t" and "level_try env params t = Inl e"
  shows "get_missing_chunks_level env params l chunks = Inr None"
  using assms by (simp add: get_missing_chunks_level_def ebind_def)

lemma level_no_exception:
  assumes "level_prelude params l chunks = Inr t"
  shows "\<exists>r. get_missing_chunks_level env params l chunks = Inr r"
  using assms by (simp add: get_missing_chunks_level_def ebind_def split: sum.splits prod.splits)

lemma levels_union:
  "(\<forall>l \<in> set levels. get_missing_chunks_level env params l chunks = Inr (Some (m l))) \<Longrightarrow>
   \<exists>mf. missing_frames_levels env params chunks levels acc = Inr (Some mf)
       \<and> set mf = set acc \<union> (\<Union>l \<in> set levels. set (m l))"
proof (induction levels arbitrary: acc)
  case Nil
  then show ?case by simp
next
  case (Cons l levels)
  have h: "get_missing_chunks_level env params l chunks = Inr (Some (m l))" using Cons.prems by simp
  have "\<forall>l \<in> set levels. get_missing_chunks_level env params l chunks = Inr (Some (m l))"
    using Cons.prems by simp
  from Cons.IH [OF this, of "List.union acc (m l)"]
  obtain mf where "missing_frames_levels env params chunks levels (List.union acc (m l)) = Inr (Some mf)"
    and "set mf = set (List.union acc (m l)) \<union> (\<Union>l \<in> set levels. set (m l))" by blast
  then show ?case using h by (auto simp: ebind_def)
qed

lemma levels_fallback:
  "(\<forall>l \<in> set levels. \<exists>t. level_prelude params l chunks = Inr t) \<Longrightarrow>
   (\<exists>l \<in> set levels. \<exists>t e. level_prelude params l chunks = Inr t \<and> level_try env params t = Inl e) \<Longrightarrow>
   missing_frames_levels env params chunks levels acc = Inr None"
proof (induction levels arbitrary: acc)
  case Nil
  then show ?case by simp
next
  case (Cons l levels)
  from Cons.prems(1) obtain t where t: "level_prelude params l chunks = Inr t" by auto
  show ?case
  proof (cases "level_try env params t")
    case (Inl e)
    then show ?thesis using t by (simp add: level_listing_fails ebind_def)
  next
    case (Inr r)
    then have "\<exists>l \<in> set levels. \<exists>t e. level_prelude params l chunks = Inr t \<and> level_try env params t = Inl e"
      using Cons.prems(2) t by auto
    moreover have "\<forall>l \<in> set levels. \<exists>t. level_prelude params l chunks = Inr t"
      using Cons.prems(1) by simp
    ultimately have ih: "\<And>acc. missing_frames_levels env params chunks levels acc = Inr None"
      using Cons.IH by blast
    obtain expected actual where "r = (expected, actual)" by (cases r)
    then show ?thesis using t Inr ih
      by (simp add: get_missing_chunks_level_def ebind_def)
  qed
qed

lemma missing_frame_chunks_cong:
  "set mf = set mf' \<Longrightarrow> missing_frame_chunks mf cs = missing_frame_chunks mf' cs"
  by (induction cs) simp_all

lemma chunks_of_missing_cong:
  "set mf = set mf' \<Longrightarrow> chunks_of_missing mf cs = chunks_of_missing mf' cs"
proof -
  assume a: "set mf = set mf'"
  then have "(mf = []) = (mf' = [])" by (metis set_empty)
  then show ?thesis using missing_frame_chunks_cong [OF a]
    by (simp add: chunks_of_missing_def)
qed

lemma get_missing_chunks_unfold:
  assumes "dict_get params ''force_recompute'' = Inr fr" and "\<not> truthy fr"
    and "dict_get params ''app'' = Inr a" and "dict_get params ''dst_level'' = Inr dl"
  shows "get_missing_chunks env params chunks =
     ebind (missing_frames_levels env params chunks (requested_levels dl) [])
       (\<lambda>missing_frames. case missing_frames of None \<Rightarrow> Inr chunks
          | Some missing_frames \<Rightarrow> chunks_of_missing missing_frames chunks)"
proof (cases "\<exists>levels. dl = PList levels")
  case True
  then show ?thesis using assms
    by (auto simp: get_missing_chunks_def ebind_def requested_levels_def)
next
  case False
  then have r: "requested_levels dl = [dl]" by (cases dl) (auto simp: requested_levels_def)
  have g: "get_missing_chunks env params chunks =
     ebind (get_missing_chunks_level env params dl chunks)
       (\<lambda>missing_frames. case missing_frames of None \<Rightarrow> Inr chunks
          | Some missing_frames \<Rightarrow> chunks_of_missing missing_frames chunks)"
    using False assms by (cases dl) (auto simp: get_missing_chunks_def ebind_def)
  have c: "chunks_of_missing (List.union [] new) chunks = chunks_of_missing new chunks" for new
    by (rule chunks_of_missing_cong) simp
  show ?thesis unfolding g r
    by (simp add: ebind_def c split: sum.splits option.splits)
qed

lemma publish_all_length: "length (fst (publish_all json_dumps params cs)) = length cs"
proof (induction cs arbitrary: params)
  case Nil
  then show ?case by simp
next
  case (Cons c cs)
  obtain msgs p' where e: "publish_all json_dumps (dict_update params c) cs = (msgs, p')"
    by (cases "publish_all json_dumps (dict_update params c) cs")
  then have "length msgs = length cs" using Cons [of "dict_update params c"] by simp
  then show ?case by (simp add: e)
qed

lemma run_halted_queue_published:
  assumes "get_missing_chunks env params cs = Inr cs'"
  shows "published (run_halted_queue env json_dumps params cs q polls) =
         fst (publish_all json_dumps params cs')"
  using assms
  by (cases cs') (auto simp: run_halted_queue_def split: prod.splits sum.splits)



lemma example_bounds:
  "\<forall>c \<in> set example_chunks. \<exists>f l. chunk_bounds c = Inr (f, l)"
proof -
  have "chunk_bounds [(''first'', PStr ''000000''), (''last'', PStr ''000000'')] = Inr (0, 0)"
    by code_simp
  moreover have "chunk_bounds [(''first'', PStr ''000001''), (''last'', PStr ''000001'')] = Inr (1, 1)"
    by code_simp
  ultimately show ?thesis by (simp add: example_chunks_def)
qed



text \<open>
  Claim C4. When \<open>force_recompute\<close> is false, every requested level resolves its
  destination, and at some requested level building the expected names or listing the
  destination raises, the missing-chunk computation returns the whole requested chunk
  list, and \<open>run_halted_queue\<close> publishes one message for each of its chunks.
\<close>

theorem listing_failure_dispatches_all:
  assumes "dict_get params ''force_recompute'' = Inr fr" and "\<not> truthy fr"
    and "dict_get params ''app'' = Inr a" and "dict_get params ''dst_level'' = Inr dl"
    and "\<forall>l \<in> set (requested_levels dl). \<exists>t. level_prelude params l frame_chunks = Inr t"
    and "\<exists>l \<in> set (requested_levels dl). \<exists>t e.
           level_prelude params l frame_chunks = Inr t \<and> level_try env params t = Inl e"
  shows "get_missing_chunks env params frame_chunks = Inr frame_chunks
       \<and> published (run_halted_queue env json_dumps params frame_chunks queue_size polls) =
           fst (publish_all json_dumps params frame_chunks)
       \<and> length (published (run_halted_queue env json_dumps params frame_chunks queue_size polls))
           = length frame_chunks"
proof -
  have "missing_frames_levels env params frame_chunks (requested_levels dl) [] = Inr None"
    using assms(5,6) by (rule levels_fallback)
  then have g: "get_missing_chunks env params frame_chunks = Inr frame_chunks"
    using get_missing_chunks_unfold [OF assms(1-4)] by (simp add: ebind_def)
  show ?thesis using g run_halted_queue_published [OF g] by (simp add: publish_all_length)
qed

theorem listing_failure_dispatches_all_witness:
  "get_missing_chunks example_env
     (AList.update ''dst_level'' (PList [PInt 0, PInt 2]) example_params) example_chunks
     = Inr example_chunks
   \<and> length (published (run_halted_queue example_env (\<lambda>d. concat (map fst d))
       (AList.update ''dst_level'' (PList [PInt 0, PInt 2]) example_params) example_chunks 0 []))
     = length example_chunks"
proof -
  let ?p = "AList.update ''dst_level'' (PList [PInt 0, PInt 2]) example_params"
  have 1: "dict_get ?p ''force_recompute'' = Inr (PBool False)" by code_simp
  have 2: "\<not> truthy (PBool False)" by simp
  have 3: "dict_get ?p ''app'' = Inr (PStr ''DerpCLI: Level 0'')" by code_simp
  have 4: "dict_get ?p ''dst_level'' = Inr (PList [PInt 0, PInt 2])" by code_simp
  have p0: "level_prelude ?p (PInt 0) example_chunks =
     Inr (''/data/out/disparity_levels/level_0'', [''000000'', ''000001''], True)" by code_simp
  have p2: "level_prelude ?p (PInt 2) example_chunks =
     Inr (''/data/out/disparity_levels/level_2'', [''000000'', ''000001''], True)" by code_simp
  have t2: "level_try example_env ?p
     (''/data/out/disparity_levels/level_2'', [''000000'', ''000001''], True) = Inl StopIteration"
    by code_simp
  have 5: "\<forall>l \<in> set (requested_levels (PList [PInt 0, PInt 2])).
             \<exists>t. level_prelude ?p l example_chunks = Inr t"
    using p0 p2 by (auto simp: requested_levels_def)
  have 6: "\<exists>l \<in> set (requested_levels (PList [PInt 0, PInt 2])). \<exists>t e.
           level_prelude ?p l example_chunks = Inr t \<and> level_try example_env ?p t = Inl e"
  proof -
    have "PInt 2 \<in> set (requested_levels (PList [PInt 0, PInt 2]))"
      by (simp add: requested_levels_def)
    then show ?thesis using p2 t2 by blast
  qed
  show ?thesis
    using listing_failure_dispatches_all [OF 1 2 3 4 5 6,
        where json_dumps = "\<lambda>d. concat (map fst d)" and queue_size = 0 and polls = "[]"]
    by blast
qed

text \<open>
  Claim C5. When \<open>dst_level\<close> is a list of levels and every level's computation gives
  its missing frames, the missing-frame set of the stage is their union: a frame is in
  it exactly when it is missing at one requested level at least, and the chunks
  returned are those with a frame in that union.
\<close>

theorem multi_level_union:
  assumes "dict_get params ''force_recompute'' = Inr fr" and "\<not> truthy fr"
    and "dict_get params ''app'' = Inr a"
    and "dict_get params ''dst_level'' = Inr (PList levels)"
    and "\<forall>l \<in> set levels. get_missing_chunks_level env params l frame_chunks = Inr (Some (m l))"
    and "\<forall>c \<in> set frame_chunks. \<exists>f l. chunk_bounds c = Inr (f, l)"
  shows "\<exists>missing_frames.
           missing_frames_levels env params frame_chunks levels [] = Inr (Some missing_frames)
         \<and> (\<forall>frame. frame \<in> set missing_frames \<longleftrightarrow> (\<exists>l \<in> set levels. frame \<in> set (m l)))
         \<and> get_missing_chunks env params frame_chunks =
             Inr (filter (has_missing_frame missing_frames) frame_chunks)"
proof -
  from levels_union [OF assms(5), of "[]"]
  obtain mf where mf: "missing_frames_levels env params frame_chunks levels [] = Inr (Some mf)"
    and s: "set mf = (\<Union>l \<in> set levels. set (m l))" by auto
  have "get_missing_chunks env params frame_chunks = chunks_of_missing mf frame_chunks"
    using get_missing_chunks_unfold [OF assms(1-4)] mf
    by (simp add: ebind_def requested_levels_def)
  then have "get_missing_chunks env params frame_chunks =
      Inr (filter (has_missing_frame mf) frame_chunks)"
    using chunks_of_missing_filter [OF assms(6)] by simp
  then show ?thesis using mf s by auto
qed

theorem multi_level_union_witness:
  "\<exists>missing_frames.
     missing_frames_levels example_env
       (AList.update ''dst_level'' (PList [PInt 0, PInt 1]) example_params)
       example_chunks [PInt 0, PInt 1] [] = Inr (Some missing_frames)
     \<and> (\<forall>frame. frame \<in> set missing_frames \<longleftrightarrow>
           (\<exists>l \<in> set [PInt 0, PInt 1]. frame \<in> set (if l = PInt 1 then [''000001''] else [])))
     \<and> get_missing_chunks example_env
         (AList.update ''dst_level'' (PList [PInt 0, PInt 1]) example_params) example_chunks =
         Inr (filter (has_missing_frame missing_frames) example_chunks)"
proof -
  let ?p = "AList.update ''dst_level'' (PList [PInt 0, PInt 1]) example_params"
  let ?m = "\<lambda>l. if l = PInt 1 then [''000001''] else []"
  have 1: "dict_get ?p ''force_recompute'' = Inr (PBool False)" by code_simp
  have 2: "\<not> truthy (PBool False)" by simp
  have 3: "dict_get ?p ''app'' = Inr (PStr ''DerpCLI: Level 0'')" by code_simp
  have 4: "dict_get ?p ''dst_level'' = Inr (PList [PInt 0, PInt 1])" by code_simp
  have l0: "get_missing_chunks_level example_env ?p (PInt 0) example_chunks = Inr (Some [])"
    by code_simp
  have l1: "get_missing_chunks_level example_env ?p (PInt 1) example_chunks =
     Inr (Some [''000001''])" by code_simp
  have 5: "\<forall>l \<in> set [PInt 0, PInt 1].
      get_missing_chunks_level example_env ?p l example_chunks = Inr (Some (?m l))"
    using l0 l1 by simp
  show ?thesis by (rule multi_level_union [OF 1 2 3 4 5 example_bounds])
qed

subsection \<open>The wait loop\<close>











subsection \<open>Expected file names, frame by frame\<close>




subsection \<open>A completed chunk leaves the missing list\<close>






subsection \<open>The download flag\<close>

lemma sbind_not_true:
  "(\<And>x w'. m w = (Inr x, w') \<Longrightarrow> fst (f x w') \<noteq> Inr True) \<Longrightarrow>
   fst (sbind m f w) \<noteq> Inr True"
  by (auto simp: sbind_def split: prod.splits sum.splits)

lemma download_image_type_not_true:
  "fst (download_image_type sys msg image_type frames level w) \<noteq> Inr True"
  unfolding download_image_type_def
  by (intro sbind_not_true) (simp add: pure_def)

lemma download_image_type_result:
  "download_image_type sys msg image_type frames level w = (Inr r, w') \<Longrightarrow> r = False"
  using download_image_type_not_true [of sys msg image_type frames level w] by auto

lemma download_each_not_true:
  "fst (download_each sys msg itl frames False w) \<noteq> Inr True"
proof (induction itl arbitrary: w)
  case Nil
  then show ?case by (simp add: pure_def)
next
  case (Cons p itl)
  obtain image_type level where p: "p = (image_type, level)" by (cases p)
  show ?case unfolding p download_each.simps
  proof (rule sbind_not_true)
    fix x w' assume "download_image_type sys msg image_type frames level w = (Inr x, w')"
    then have "x = False" by (rule download_image_type_result)
    then show "fst (download_each sys msg itl frames (False \<or> x) w') \<noteq> Inr True"
      using Cons by simp
  qed
qed

text \<open>
  Claim C9. Whatever the message, the image type, the frames and the level, and
  whatever the machine does, \<open>download_image_type\<close> never returns True: it raises or
  returns False, on the S3 branch as elsewhere. So does \<open>download_image_types\<close>, which
  only or-s such results. With a False download flag \<open>_clean_worker\<close> does not delete
  the input root: it runs its second statement only.
\<close>

theorem download_flag_always_false:
  "fst (download_image_type sys msg image_type frames level w) \<noteq> Inr True
   \<and> fst (download_image_types sys msg image_type_to_level frames_opt w) \<noteq> Inr True
   \<and> clean_worker sys False ran_upload w =
       (if ran_upload \<and> path_exists (snapshot sys w) DOCKER_INPUT_ROOT
        then rmtree sys DOCKER_OUTPUT_ROOT w else (Inr (), w))"
proof (intro conjI)
  show "fst (download_image_type sys msg image_type frames level w) \<noteq> Inr True"
    by (rule download_image_type_not_true)
  show "fst (download_image_types sys msg image_type_to_level frames_opt w) \<noteq> Inr True"
    unfolding download_image_types_def
    by (intro sbind_not_true) (rule download_each_not_true)
  show "clean_worker sys False ran_upload w =
       (if ran_upload \<and> path_exists (snapshot sys w) DOCKER_INPUT_ROOT
        then rmtree sys DOCKER_OUTPUT_ROOT w else (Inr (), w))"
    by (simp add: clean_worker_def sbind_def)
qed

text \<open>On S3 the archive of the frame is copied and unpacked, and the result is False.\<close>

lemma download_image_type_s3_example:
  "download_image_type logging_sys s3_msg (PStr ''color'') [''000000''] (PInt 1) [] =
     (Inr False,
      [''aws s3 cp s3://bucket/project/video/color_levels/level_1/000000.tar /app/facebook360_dep/project/video/color_levels/level_1/000000.tar'',
       ''untar /app/facebook360_dep/project/video/color_levels/level_1/000000.tar /app/facebook360_dep/project/video/color_levels/level_1''])"
  by code_simp

subsection \<open>The failure path of a worker\<close>




subsection \<open>Depth estimation runs its pass over the levels twice\<close>





















lemma plain_pipeline_names:
  "depth_estimation record_name plain_pipeline [] =
     (Inr (),
      [''DerpCLI: Level 1 -> 1'', ''TemporalBilateralFilter -> 1'', ''Transfer -> 1'',
       ''DerpCLI: Level 0 -> 0'', ''TemporalBilateralFilter -> 0'', ''Transfer -> 0'',
       ''DerpCLI: Level 1 -> 1'', ''TemporalBilateralFilter -> 1'', ''Transfer -> 1'',
       ''DerpCLI: Level 0 -> 0'', ''TemporalBilateralFilter -> 0'', ''Transfer -> 0'',
       ''Transfer -> None''])"
  by code_simp

end
